theory Spec2Isabelle
  imports Main "HOL-Library.Sublist"
begin

section \<open>JavaScript values\<close>

text \<open>
  The two handlers of the repository receive untyped JavaScript values: the payload
  \<open>data\<close> of the callable function and the body of the HTTP request. A value is
  undefined, null, a boolean, a number, a string, an array or an object. A number is
  kept by the two things the handlers ask of it: whether it is truthy (neither zero
  nor NaN) and the text \<open>Number.prototype.toString\<close> gives for it. A string is a list
  of characters, a \<open>char\<close> standing for a code unit below 256. An object is the list
  of its own properties, none of which is a function (the values come from JSON); the
  first binding of a name is the property's value.
\<close>

datatype jsval =
    JUndefined
  | JNull
  | JBool bool
  | JNum bool string
  | JStr string
  | JArr "jsval list"
  | JObj "(string \<times> jsval) list"

text \<open>What a thrown value is: an \<open>HttpsError\<close> with its code and message, or any other
  error with its \<open>message\<close> property (\<open>None\<close> when the property is undefined).\<close>

datatype exn =
    HttpsError string string
  | Error "string option"

fun message :: "exn \<Rightarrow> string option" where
  "message (HttpsError c m) = Some m"
| "message (Error m) = m"

text \<open>\<open>!v\<close> is \<open>\<not> truthy v\<close>.\<close>

fun truthy :: "jsval \<Rightarrow> bool" where
  "truthy JUndefined = False"
| "truthy JNull = False"
| "truthy (JBool b) = b"
| "truthy (JNum nonzero printed) = nonzero"
| "truthy (JStr s) = (s \<noteq> [])"
| "truthy (JArr xs) = True"
| "truthy (JObj kvs) = True"

fun typeof :: "jsval \<Rightarrow> string" where
  "typeof JUndefined = ''undefined''"
| "typeof JNull = ''object''"
| "typeof (JBool b) = ''boolean''"
| "typeof (JNum nonzero printed) = ''number''"
| "typeof (JStr s) = ''string''"
| "typeof (JArr xs) = ''object''"
| "typeof (JObj kvs) = ''object''"

text \<open>
  Reading the property \<open>k\<close> of \<open>v\<close> in a destructuring \<open>const { k } = v\<close>, where
  \<open>v\<close> is written \<open>src\<close> in the source: a TypeError on undefined and null (with the
  message Node gives it), the property of an object, and undefined on every other
  value (for the two names the handlers read, \<open>fileContent\<close> and \<open>fileName\<close>, which
  no primitive and no array has).
\<close>

fun destructure_of :: "string \<Rightarrow> jsval \<Rightarrow> string \<Rightarrow> exn + jsval" where
  "destructure_of src JUndefined k =
     Inl (Error (Some (''Cannot destructure property '' @ [CHR 0x27] @ k @ [CHR 0x27]
       @ '' of '' @ [CHR 0x27] @ src @ [CHR 0x27] @ '' as it is undefined.'')))"
| "destructure_of src JNull k =
     Inl (Error (Some (''Cannot destructure property '' @ [CHR 0x27] @ k @ [CHR 0x27]
       @ '' of '' @ [CHR 0x27] @ src @ [CHR 0x27] @ '' as it is null.'')))"
| "destructure_of src (JObj kvs) k =
     Inr (case map_of kvs k of None \<Rightarrow> JUndefined | Some v \<Rightarrow> v)"
| "destructure_of src v k = Inr JUndefined"

text \<open>The destructuring of the callable function's payload, which the source calls
  \<open>data\<close> (line 87).\<close>

abbreviation destructure :: "jsval \<Rightarrow> string \<Rightarrow> exn + jsval" where
  "destructure v k \<equiv> destructure_of ''data'' v k"

text \<open>\<open>String.prototype.trim\<close> removes white space and line terminators at both ends;
  below 256 these are tab, LF, VT, FF, CR, space and the no-break space.\<close>

definition isWhiteSpace :: "char \<Rightarrow> bool" where
  "isWhiteSpace c = (of_char c \<in> {9, 10, 11, 12, 13, 32, 160 :: nat})"

definition trim :: "string \<Rightarrow> string" where
  "trim s = rev (dropWhile isWhiteSpace (rev (dropWhile isWhiteSpace s)))"

fun join :: "string list \<Rightarrow> string" where
  "join [] = []"
| "join [x] = x"
| "join (x # y # ys) = x @ '','' @ join (y # ys)"

text \<open>
  \<open>ToString\<close>, which a template literal applies to the value it interpolates. It
  throws a TypeError on an object that has a property \<open>toString\<close> of its own: that
  property is not a function, and neither \<open>valueOf\<close> of its own nor the inherited one
  gives a primitive. Every other object prints as \<open>[object Object]\<close>. An array prints
  its elements joined by commas, undefined and null elements as the empty string, and
  throws when an element does.
\<close>

fun toString :: "jsval \<Rightarrow> exn + string"
  and toString_elements :: "jsval list \<Rightarrow> exn + string list" where
  "toString JUndefined = Inr ''undefined''"
| "toString JNull = Inr ''null''"
| "toString (JBool b) = Inr (if b then ''true'' else ''false'')"
| "toString (JNum nonzero printed) = Inr printed"
| "toString (JStr s) = Inr s"
| "toString (JArr xs) =
     (case toString_elements xs of Inl x \<Rightarrow> Inl x | Inr ts \<Rightarrow> Inr (join ts))"
| "toString (JObj kvs) =
     (if map_of kvs ''toString'' \<noteq> None
      then Inl (Error (Some ''Cannot convert object to primitive value''))
      else Inr ''[object Object]'')"
| "toString_elements [] = Inr []"
| "toString_elements (x # xs) =
     (case (if x = JUndefined \<or> x = JNull then Inr [] else toString x) of
        Inl err \<Rightarrow> Inl err
      | Inr t \<Rightarrow>
          (case toString_elements xs of Inl err \<Rightarrow> Inl err | Inr ts \<Rightarrow> Inr (t # ts)))"


section \<open>The callable function (src/unnamed/part_000)\<close>

subsection \<open>The Report Record and the document store\<close>

text \<open>
  The document the handler inserts into the collection \<open>analysisReports\<close>. A date is
  the number the clock gave (\<open>new Date()\<close>); \<open>null\<close> is \<open>None\<close>; \<open>lastUpdated\<close>
  is absent until an update sets it. An \<open>ObjectId\<close> is a natural number.
\<close>

type_synonym objectid = nat

record report_record =
  userId :: string
  fileName :: jsval
  status :: string
  createdAt :: nat
  report :: "string option"
  error :: "string option"
  lastUpdated :: "nat option"

text \<open>One assignment of a \<open>$set\<close> update.\<close>

datatype set_field =
    SetStatus string
  | SetReport string
  | SetError string
  | SetLastUpdated nat

fun apply_set :: "set_field \<Rightarrow> report_record \<Rightarrow> report_record" where
  "apply_set (SetStatus v) r = r\<lparr>status := v\<rparr>"
| "apply_set (SetReport v) r = r\<lparr>report := Some v\<rparr>"
| "apply_set (SetError v) r = r\<lparr>error := Some v\<rparr>"
| "apply_set (SetLastUpdated t) r = r\<lparr>lastUpdated := Some t\<rparr>"

text \<open>The response of the generation service, as far as the handlers read it:
  \<open>response.candidates[0].content.parts[0].text\<close>, every level of which may be
  missing (the field \<open>text\<close> is \<open>part_text\<close> here).\<close>

record part =
  part_text :: "string option"

record content =
  parts :: "part list option"

record candidate =
  content :: "content option"

record response =
  candidates :: "candidate list option"

text \<open>The calls that leave the process, in the order they are made.\<close>

datatype event =
    Connect
  | Close
  | InsertOne report_record
  | GenerateContent string string string
  | UpdateOne objectid "set_field list"

text \<open>
  What the outside world answers during one request: whether the driver reports the
  client connected, whether the client's constructor, \<open>connect\<close> and \<open>close\<close> throw,
  what \<open>insertOne\<close> answers (the identifier it generated, or what it throws), what
  \<open>generateContent\<close> answers (its \<open>result.response\<close>, or what it throws), whether
  each of the two \<open>updateOne\<close> calls throws, and the three readings of the clock.
\<close>

record env =
  isConnected :: bool
  MongoClient_throws :: "exn option"
  connect_throws :: "exn option"
  close_throws :: "exn option"
  insertOne_result :: "exn + objectid"
  generateContent_result :: "exn + response option"
  updateOne_completed_throws :: "exn option"
  updateOne_error_throws :: "exn option"
  date_createdAt :: nat
  date_completed :: nat
  date_error :: nat

text \<open>
  The module's globals (\<open>mongoUri\<close>, \<open>genAI\<close>, \<open>mongoClient\<close>; \<open>mongoDb\<close> is set
  and cleared together with a connected client and is not kept apart), the collection
  in the document store, and the calls made so far. \<open>genAI\<close> holds the key the client
  was built with, \<open>mongoClient\<close> the connection string.
\<close>

record state =
  mongoUri :: "string option"
  genAI :: "string option"
  mongoClient :: "string option"
  store :: "objectid \<rightharpoonup> report_record"
  calls :: "event list"

text \<open>The configuration \<open>functions.config()\<close>: two sections, each of which may be
  missing, as may the value in it.\<close>

record mongodb_config =
  uri :: "string option"

record gemini_config =
  key :: "string option"

record config =
  mongodb :: "mongodb_config option"
  gemini :: "gemini_config option"

text \<open>\<open>!s\<close> for a string that may be undefined.\<close>

definition falsy :: "string option \<Rightarrow> bool" where
  "falsy v = (case v of None \<Rightarrow> True | Some s \<Rightarrow> s = [])"

text \<open>
  Loading the module (lines 18 to 62), given what the collection holds. Reading
  \<open>functions.config().mongodb.uri\<close> stands outside any \<open>try\<close>: with no \<open>mongodb\<close>
  section the load fails. The \<open>gemini\<close> key is read inside a \<open>try\<close> whose handler
  only logs: with no section or no key, \<open>genAI\<close> stays undefined and the load goes on.
\<close>

definition module_init :: "config \<Rightarrow> (objectid \<rightharpoonup> report_record) \<Rightarrow> exn + state" where
  "module_init cfg db =
     (case mongodb cfg of
        None \<Rightarrow> Inl (Error (Some (''Cannot read properties of undefined (reading ''
                  @ [CHR 0x27] @ ''uri'' @ [CHR 0x27] @ '')'')))
      | Some m \<Rightarrow>
          Inr \<lparr> mongoUri = uri m,
                genAI = (case gemini cfg of
                           None \<Rightarrow> None
                         | Some g \<Rightarrow> if falsy (key g) then None else key g),
                mongoClient = None,
                store = db,
                calls = [] \<rparr>)"

text \<open>
  \<open>insertOne\<close>: the call is made; it throws what the world says, or a duplicate-key
  error when the identifier is taken, and otherwise stores the document under the new
  identifier. A call that throws leaves the collection as it was.
\<close>

definition insertOne :: "env \<Rightarrow> report_record \<Rightarrow> state \<Rightarrow> (exn + objectid) \<times> state" where
  "insertOne e r s =
     (let s1 = s\<lparr>calls := calls s @ [InsertOne r]\<rparr> in
      case insertOne_result e of
        Inl x \<Rightarrow> (Inl x, s1)
      | Inr oid \<Rightarrow>
          if store s oid \<noteq> None
          then (Inl (Error (Some ''E11000 duplicate key error collection: innovantaDB.analysisReports'')), s1)
          else (Inr oid, s1\<lparr>store := (store s)(oid \<mapsto> r)\<rparr>))"

text \<open>\<open>updateOne({ _id: oid }, { $set: sets })\<close>: the call is made; it throws when
  the world says so, and otherwise merges the assignments into the document with
  that identifier and answers \<open>modifiedCount\<close>.\<close>

definition updateOne :: "exn option \<Rightarrow> objectid \<Rightarrow> set_field list \<Rightarrow> state \<Rightarrow> (exn + nat) \<times> state" where
  "updateOne throws oid sets s =
     (let s1 = s\<lparr>calls := calls s @ [UpdateOne oid sets]\<rparr> in
      case throws of
        Some x \<Rightarrow> (Inl x, s1)
      | None \<Rightarrow>
          (case store s oid of
             None \<Rightarrow> (Inr 0, s1)
           | Some r \<Rightarrow>
               (let r' = fold apply_set sets r
                in (Inr (if r' = r then 0 else 1), s1\<lparr>store := (store s)(oid \<mapsto> r')\<rparr>))))"

text \<open>\<open>model.generateContent(userQuery)\<close> on the model built with a system
  instruction.\<close>

definition generateContent ::
    "env \<Rightarrow> string \<Rightarrow> string \<Rightarrow> string \<Rightarrow> state \<Rightarrow> (exn + response option) \<times> state" where
  "generateContent e model systemInstruction userQuery s =
     (generateContent_result e, s\<lparr>calls := calls s @ [GenerateContent model systemInstruction userQuery]\<rparr>)"

subsection \<open>connectToMongo (lines 25 to 47)\<close>

definition connectToMongo :: "env \<Rightarrow> state \<Rightarrow> (exn + unit) \<times> state" where
  "connectToMongo e s =
     (if mongoClient s \<noteq> None \<and> isConnected e then (Inr (), s)
      else if falsy (mongoUri s)
      then (Inl (Error (Some (''MongoDB URI not found in Firebase Functions config. Set using ''
              @ [CHR 0x27] @ ''firebase functions:config:set mongodb.uri=...'' @ [CHR 0x27]))), s)
      else
        (case MongoClient_throws e of
           Some x \<Rightarrow> (Inl x, s)
         | None \<Rightarrow>
             (let s1 = s\<lparr>mongoClient := mongoUri s, calls := calls s @ [Connect]\<rparr> in
              case connect_throws e of
                None \<Rightarrow> (Inr (), s1)
              | Some x \<Rightarrow>
                  (let s2 = s1\<lparr>calls := calls s1 @ [Close]\<rparr> in
                   case close_throws e of
                     Some y \<Rightarrow> (Inl y, s2)
                   | None \<Rightarrow> (Inl x, s2\<lparr>mongoClient := None\<rparr>)))))"

subsection \<open>The system instruction (lines 65 to 73)\<close>

text \<open>One template literal in the source; it is written here as the concatenation of
  its pieces, a line feed being \<open>CHR 0x0A\<close>.\<close>

definition systemPrompt :: string where
  "systemPrompt =
     ''You are a world-class SME Financial and Business Analyst.'' @ '' Your task is to process the following raw CSV data and return a detailed, professional business report. '' @ ''The response must be structured using Markdown.''
     @ [CHR 0x0A, CHR 0x0A]
     @ ''The report should contain the following '' @ ''five sections'' @ '', using the data provided:''
     @ [CHR 0x0A]
     @ ''1. EXECUTIVE SUMMARY:'' @ '' A single paragraph summarizing the key trends and overall health.''
     @ [CHR 0x0A]
     @ ''2. ACTIONABLE INSIGHTS:'' @ '' Provide 5 clear, numbered, and specific recommendations to boost efficiency and ROI based on the data. Use standard markdown list format ('' @ ''* item).''
     @ [CHR 0x0A]
     @ ''3. KEY PERFORMANCE INDICATORS (KPIs) & TRENDS:'' @ '' Calculate and present 3-4 key growth metrics (e.g., total profit, average revenue/customer, profit margin percentage) and describe a clear trend (positive/negative) for each. Use standard markdown list format ('' @ ''* item).''
     @ [CHR 0x0A]
     @ ''4. ROI & FORECAST:'' @ '' Provide a short forecast (2-3 sentences) based on current performance AND explicitly state a '' @ [CHR 0x27] @ ''Projected ROI %'' @ [CHR 0x27] @ '' as a number followed by '' @ [CHR 0x27] @ ''%'' @ [CHR 0x27] @ ''.''
     @ [CHR 0x0A]
     @ ''5. CRITICAL ALERTS:'' @ '' List any critical issues found (e.g., * High Customer Churn Rate). If none, state explicitly '' @ [CHR 0x22] @ ''No Critical Alerts Detected.'' @ [CHR 0x22] @ '' Use standard markdown list format ('' @ ''* item).''
     @ [CHR 0x0A]"

subsection \<open>The handler analyzeCsvContent (lines 77 to 189)\<close>

text \<open>Console output is not modelled: the statements that only log leave no trace
  here, among them the warning when \<open>modifiedCount\<close> is not 1 (lines 156 to 158).\<close>

record auth =
  uid :: string

record callable_context =
  auth :: "auth option"

text \<open>The object the handler returns; \<open>reportId\<close> is the identifier itself, where the
  source returns its rendering \<open>mongoDocId.toString()\<close>.\<close>

record result =
  res_status :: string
  res_reportId :: objectid
  res_report :: string
  res_fileName :: jsval
  res_createdAt :: nat

text \<open>\<open>candidates[0]?.content?.parts?.[0]?.text\<close>: undefined as soon as a level is
  missing.\<close>

definition first_text :: "candidate list \<Rightarrow> string option" where
  "first_text cs =
     (case cs of
        [] \<Rightarrow> None
      | c # _ \<Rightarrow>
          (case content c of
             None \<Rightarrow> None
           | Some ct \<Rightarrow>
               (case parts ct of
                  None \<Rightarrow> None
                | Some ps \<Rightarrow> (case ps of [] \<Rightarrow> None | p # _ \<Rightarrow> part_text p))))"

text \<open>The guard of line 143 on \<open>result.response\<close>.\<close>

definition invalid_response :: "response option \<Rightarrow> bool" where
  "invalid_response r =
     (case r of
        None \<Rightarrow> True
      | Some resp \<Rightarrow>
          (case candidates resp of
             None \<Rightarrow> True
           | Some cs \<Rightarrow> falsy (first_text cs)))"

text \<open>Lines 143 to 147: \<open>None\<close> when the guard throws, and otherwise the text that
  line 147 reads.\<close>

definition checked_text :: "response option \<Rightarrow> string option" where
  "checked_text r =
     (if invalid_response r then None
      else (case r of
              None \<Rightarrow> None
            | Some resp \<Rightarrow> (case candidates resp of None \<Rightarrow> None | Some cs \<Rightarrow> first_text cs)))"

text \<open>The template literal of line 136, for the text \<open>ToString\<close> gave for
  \<open>fileContent\<close>.\<close>

definition userQuery :: "string \<Rightarrow> string" where
  "userQuery fileContent =
     [CHR 0x0A, CHR 0x0A] @ ''RAW CSV DATA START:'' @ [CHR 0x0A] @ fileContent
       @ [CHR 0x0A] @ ''RAW CSV DATA END''"

text \<open>
  The \<open>try\<close> block (lines 123 to 168). It returns the object of line 162, or what was
  thrown, together with \<open>mongoDocId\<close> as it stands when the block is left. The
  template literal of line 136 converts \<open>fileContent\<close> to a string, which may throw
  (it does not on a string, and the validation lets nothing else through).
\<close>

definition try_block ::
    "env \<Rightarrow> report_record \<Rightarrow> jsval \<Rightarrow> state \<Rightarrow> (exn + result) \<times> objectid option \<times> state" where
  "try_block e rec fileContent s =
     (case insertOne e rec s of
        (Inl x, s1) \<Rightarrow> (Inl x, None, s1)
      | (Inr mongoDocId, s1) \<Rightarrow>
          (case toString fileContent of
             Inl x \<Rightarrow> (Inl x, Some mongoDocId, s1)
           | Inr t \<Rightarrow>
          (case generateContent e ''gemini-1.5-flash'' systemPrompt (userQuery t) s1 of
             (Inl x, s2) \<Rightarrow> (Inl x, Some mongoDocId, s2)
           | (Inr r, s2) \<Rightarrow>
               (case checked_text r of
                  None \<Rightarrow>
                    (Inl (Error (Some ''AI analysis returned an invalid or empty response structure.'')),
                     Some mongoDocId, s2)
                | Some reportText \<Rightarrow>
                    (case updateOne (updateOne_completed_throws e) mongoDocId
                            [SetStatus ''completed'', SetReport reportText,
                             SetLastUpdated (date_completed e)] s2 of
                       (Inl x, s3) \<Rightarrow> (Inl x, Some mongoDocId, s3)
                     | (Inr updateResult, s3) \<Rightarrow>
                         (Inr \<lparr> res_status = ''completed'',
                                res_reportId = mongoDocId,
                                res_report = reportText,
                                res_fileName = fileName rec,
                                res_createdAt = createdAt rec \<rparr>,
                          Some mongoDocId, s3))))))"

text \<open>\<open>err.message || 'Unknown error during analysis.'\<close>\<close>

definition errorMessage :: "exn \<Rightarrow> string" where
  "errorMessage err =
     (if falsy (message err) then ''Unknown error during analysis.''
      else (case message err of Some m \<Rightarrow> m | None \<Rightarrow> ''Unknown error during analysis.''))"

text \<open>
  The \<open>catch\<close> block (lines 170 to 188): with an identifier (an \<open>ObjectId\<close> is an
  object, so \<open>if (mongoDocId)\<close> asks whether there is one), one \<open>updateOne\<close> whose
  failure is only logged; in every case an \<open>internal\<close> error is thrown.
\<close>

definition catch_block :: "env \<Rightarrow> exn \<Rightarrow> objectid option \<Rightarrow> state \<Rightarrow> exn \<times> state" where
  "catch_block e err mongoDocId s =
     (HttpsError ''internal'' (''AI Analysis Failed: '' @ errorMessage err),
      (case mongoDocId of
         Some oid \<Rightarrow>
           snd (updateOne (updateOne_error_throws e) oid
                  [SetStatus ''error'', SetError (errorMessage err),
                   SetLastUpdated (date_error e)] s)
       | None \<Rightarrow> s))"

text \<open>The \<open>try\<close> statement as a whole (lines 123 to 188): what the handler returns
  or throws from it.\<close>

definition try_catch ::
    "env \<Rightarrow> report_record \<Rightarrow> jsval \<Rightarrow> state \<Rightarrow> (exn + result) \<times> state" where
  "try_catch e rec fileContent s =
     (case try_block e rec fileContent s of
        (Inr res, mongoDocId, s2) \<Rightarrow> (Inr res, s2)
      | (Inl err, mongoDocId, s2) \<Rightarrow>
          (case catch_block e err mongoDocId s2 of (thrown, s3) \<Rightarrow> (Inl thrown, s3)))"

text \<open>The initial record (lines 112 to 119), for the caller \<open>a\<close> and the file name
  \<open>fn\<close>.\<close>

definition analysisRecord :: "env \<Rightarrow> auth \<Rightarrow> jsval \<Rightarrow> report_record" where
  "analysisRecord e a fn =
     \<lparr> userId = uid a,
       fileName = fn,
       status = ''processing'',
       createdAt = date_createdAt e,
       report = None,
       error = None,
       lastUpdated = None \<rparr>"

text \<open>
  The two guards of the input validation (lines 88 and 92). In the first, \<open>trim\<close> is
  only reached on a string, the disjuncts before it being false.
\<close>

definition invalid_fileContent :: "jsval \<Rightarrow> bool" where
  "invalid_fileContent fileContent =
     (\<not> truthy fileContent \<or> typeof fileContent \<noteq> ''string''
      \<or> (case fileContent of JStr t \<Rightarrow> trim t = [] | _ \<Rightarrow> False))"

definition invalid_fileName :: "jsval \<Rightarrow> bool" where
  "invalid_fileName v = (\<not> truthy v \<or> typeof v \<noteq> ''string'')"

definition analyzeCsvContent :: "env \<Rightarrow> jsval \<Rightarrow> callable_context \<Rightarrow> state \<Rightarrow> (exn + result) \<times> state" where
  \<open>analyzeCsvContent e data context s =
     (case auth context of
        None \<Rightarrow>
          (Inl (HttpsError ''unauthenticated'' ''The function must be called while authenticated.''), s)
      | Some a \<Rightarrow>
          (case destructure data ''fileContent'' of
             Inl x \<Rightarrow> (Inl x, s)
           | Inr fileContent \<Rightarrow>
               (case destructure data ''fileName'' of
                  Inl x \<Rightarrow> (Inl x, s)
                | Inr fileName' \<Rightarrow>
                    if invalid_fileContent fileContent
                    then (Inl (HttpsError ''invalid-argument''
                            (''The function must be called with a non-empty '' @ [CHR 0x22]
                             @ ''fileContent'' @ [CHR 0x22] @ '' string.'')), s)
                    else if invalid_fileName fileName'
                    then (Inl (HttpsError ''invalid-argument''
                            (''The function must be called with a '' @ [CHR 0x22]
                             @ ''fileName'' @ [CHR 0x22] @ '' string.'')), s)
                    else if genAI s = None
                    then (Inl (HttpsError ''internal''
                            ''AI Service Initialization Failed. Contact support.''), s)
                    else
                      (case connectToMongo e s of
                         (Inl mongoError, s1) \<Rightarrow>
                           (Inl (HttpsError ''internal''
                              ''Database connection failed. Contact support.''), s1)
                       | (Inr currentDb, s1) \<Rightarrow>
                           try_catch e (analysisRecord e a fileName') fileContent s1))))\<close>

text \<open>The platform calls the handler once per request, one request after the other,
  each with the world's answers for it.\<close>

record request =
  req_env :: env
  req_data :: jsval
  req_context :: callable_context

fun serve :: "request list \<Rightarrow> state \<Rightarrow> (exn + result) list \<times> state" where
  "serve [] s = ([], s)"
| "serve (r # rs) s =
     (case analyzeCsvContent (req_env r) (req_data r) (req_context r) s of
        (out, s1) \<Rightarrow> (case serve rs s1 of (outs, s2) \<Rightarrow> (out # outs, s2)))"

section \<open>The HTTP endpoint (src/api/analyze.js)\<close>

definition systemPrompt_api :: string where
  "systemPrompt_api =
     ''You are a world-class SME Financial and Business Analyst.'' @ '' Your task is to process the following raw CSV data and return a detailed, professional business report. '' @ ''The response must be structured using Markdown.''
     @ [CHR 0x0A, CHR 0x0A]
     @ ''The report should contain the following '' @ ''four sections'' @ '', using the data provided:''
     @ [CHR 0x0A]
     @ ''1. EXECUTIVE SUMMARY:'' @ '' A single paragraph summarizing the key trends and overall health.''
     @ [CHR 0x0A]
     @ ''2. ACTIONABLE INSIGHTS:'' @ '' Provide 5 clear, numbered, and specific recommendations to boost efficiency and ROI based on the data.''
     @ [CHR 0x0A]
     @ ''3. KEY PERFORMANCE INDICATORS (KPIs) & TRENDS:'' @ '' Calculate and present 3-4 key growth metrics (e.g., total profit, average revenue/customer, profit margin percentage) and describe a clear trend (positive/negative) for each.''
     @ [CHR 0x0A]
     @ ''4. ROI & FORECAST:'' @ '' Provide a short forecast (2-3 sentences) based on current performance.''
     @ [CHR 0x0A]"

record http_request =
  req_method :: string
  req_body :: jsval

record http_response =
  statusCode :: nat
  payload :: jsval

text \<open>The one call that leaves the endpoint: the model's name and the texts of the
  parts of its single user content.\<close>

datatype api_call = ApiGenerateContent string "string list"

text \<open>The \<open>catch\<close> block (lines 46 to 49).\<close>

definition server_error :: "exn \<Rightarrow> http_response" where
  "server_error err =
     \<lparr> statusCode = 500,
       payload = JObj [(''message'', JStr ''AI analysis failed due to a server error. Check GEMINI_API_KEY setting.''),
                       (''details'', case message err of None \<Rightarrow> JUndefined | Some m \<Rightarrow> JStr m)] \<rparr>"

text \<open>
  The exported handler (lines 16 to 50), given what \<open>ai.models.generateContent\<close>
  answers: the response sent, and the calls made. The destructuring of \<open>req.body\<close>
  and the template literal of line 32 stand inside the \<open>try\<close>: when either throws,
  the \<open>catch\<close> block answers and no call is made.
\<close>

definition analyze :: "exn + response \<Rightarrow> http_request \<Rightarrow> http_response \<times> api_call list" where
  "analyze answer req =
     (if req_method req \<noteq> ''POST''
      then (\<lparr> statusCode = 405, payload = JObj [(''message'', JStr ''Only POST requests allowed.'')] \<rparr>, [])
      else
        (case destructure_of ''req.body'' (req_body req) ''fileContent'' of
           Inl err \<Rightarrow> (server_error err, [])
         | Inr fileContent \<Rightarrow>
             if \<not> truthy fileContent
             then (\<lparr> statusCode = 400,
                     payload = JObj [(''message'', JStr ''Missing file content in request body.'')] \<rparr>, [])
             else
               (case toString fileContent of
                  Inl err \<Rightarrow> (server_error err, [])
                | Inr t \<Rightarrow>
               (let parts' = [systemPrompt_api,
                             [CHR 0x0A] @ ''RAW CSV DATA START:'' @ [CHR 0x0A] @ t
                               @ [CHR 0x0A] @ ''RAW CSV DATA END''];
                    call = ApiGenerateContent ''gemini-2.5-flash-preview-09-2025'' parts'
                in case answer of
                     Inl err \<Rightarrow> (server_error err, [call])
                   | Inr response \<Rightarrow>
                       (let text = (case candidates response of None \<Rightarrow> None | Some cs \<Rightarrow> first_text cs);
                            reportText = (if falsy text then ''AI analysis failed to generate a report.''
                                          else (case text of Some t \<Rightarrow> t
                                                | None \<Rightarrow> ''AI analysis failed to generate a report.''))
                        in (\<lparr> statusCode = 200, payload = JObj [(''report'', JStr reportText)] \<rparr>,
                            [call]))))))"

section \<open>Notions the properties are stated with\<close>

text \<open>The calls a request added: those of the state after it that the state before it
  did not have.\<close>

definition new_calls :: "state \<Rightarrow> state \<Rightarrow> event list" where
  "new_calls s s' = drop (length (calls s)) (calls s')"

text \<open>
  What fails after the record was inserted, if anything does: the generation call,
  then the check of its response, then the update that marks the record completed.
\<close>

definition later_failure :: "env \<Rightarrow> exn option" where
  "later_failure e =
     (case generateContent_result e of
        Inl x \<Rightarrow> Some x
      | Inr r \<Rightarrow>
          (case checked_text r of
             None \<Rightarrow> Some (Error (Some ''AI analysis returned an invalid or empty response structure.''))
           | Some t \<Rightarrow> updateOne_completed_throws e))"

text \<open>Whether a secret is missing from the configuration: the section is not there,
  or its value is undefined or empty.\<close>

definition uri_missing :: "config \<Rightarrow> bool" where
  "uri_missing cfg = (case mongodb cfg of None \<Rightarrow> True | Some m \<Rightarrow> falsy (uri m))"

definition key_missing :: "config \<Rightarrow> bool" where
  "key_missing cfg = (case gemini cfg of None \<Rightarrow> True | Some g \<Rightarrow> falsy (key g))"

text \<open>Whether an outcome of the callable function is an \<open>HttpsError\<close> of a given
  code.\<close>

definition rejected_with :: "string \<Rightarrow> exn + result \<Rightarrow> bool" where
  "rejected_with c out = (case out of Inl (HttpsError c' m) \<Rightarrow> c' = c | _ \<Rightarrow> False)"

subsection \<open>Concrete inputs\<close>

text \<open>A response with the text \<open># Report\<close>, and one with no candidates.\<close>

definition response_with_text :: response where
  "response_with_text =
     \<lparr> candidates = Some [\<lparr> content = Some \<lparr> parts = Some [\<lparr> part_text = Some ''# Report'' \<rparr>] \<rparr> \<rparr>] \<rparr>"

definition response_without_text :: response where
  "response_without_text = \<lparr> candidates = Some [] \<rparr>"

text \<open>A world in which every call succeeds, a loaded module with both secrets and an
  empty collection, and a valid request of the caller \<open>u1\<close>.\<close>

definition env_ok :: env where
  "env_ok =
     \<lparr> isConnected = False,
       MongoClient_throws = None,
       connect_throws = None,
       close_throws = None,
       insertOne_result = Inr 7,
       generateContent_result = Inr (Some response_with_text),
       updateOne_completed_throws = None,
       updateOne_error_throws = None,
       date_createdAt = 100,
       date_completed = 200,
       date_error = 300 \<rparr>"

definition config_ok :: config where
  "config_ok = \<lparr> mongodb = Some \<lparr> uri = Some ''mongodb+srv://host'' \<rparr>,
                 gemini = Some \<lparr> key = Some ''secret'' \<rparr> \<rparr>"

definition state_ok :: state where
  "state_ok =
     \<lparr> mongoUri = Some ''mongodb+srv://host'',
       genAI = Some ''secret'',
       mongoClient = None,
       store = Map.empty,
       calls = [] \<rparr>"

definition data_ok :: jsval where
  "data_ok = JObj [(''fileContent'', JStr ''month,revenue''), (''fileName'', JStr ''sales.csv'')]"

definition context_ok :: callable_context where
  "context_ok = \<lparr> auth = Some \<lparr> uid = ''u1'' \<rparr> \<rparr>"

text \<open>Worlds in which one call fails: the update that marks the record completed;
  the generation call; the generation call and then the update that records the
  error; and a world whose generation call answers without any text.\<close>

definition env_update_throws :: env where
  "env_update_throws = env_ok\<lparr>updateOne_completed_throws := Some (Error (Some ''connection reset''))\<rparr>"

definition env_generate_throws :: env where
  "env_generate_throws = env_ok\<lparr>generateContent_result := Inl (Error (Some ''quota exceeded''))\<rparr>"

definition env_nothing_recorded :: env where
  "env_nothing_recorded =
     env_generate_throws\<lparr>updateOne_error_throws := Some (Error (Some ''connection reset''))\<rparr>"

definition env_no_text :: env where
  "env_no_text = env_ok\<lparr>generateContent_result := Inr (Some response_without_text)\<rparr>"

text \<open>The valid request in each of these worlds, from the loaded module.\<close>

definition run_ok :: "(exn + result) \<times> state" where
  "run_ok = analyzeCsvContent env_ok data_ok context_ok state_ok"

definition run_update_throws :: "(exn + result) \<times> state" where
  "run_update_throws = analyzeCsvContent env_update_throws data_ok context_ok state_ok"



definition run_no_text :: "(exn + result) \<times> state" where
  "run_no_text = analyzeCsvContent env_no_text data_ok context_ok state_ok"




text \<open>Configurations with one secret missing, and the module as it loads from each.\<close>

definition config_no_key :: config where
  "config_no_key = \<lparr> mongodb = Some \<lparr> uri = Some ''mongodb+srv://host'' \<rparr>,
                     gemini = Some \<lparr> key = None \<rparr> \<rparr>"

definition config_no_uri :: config where
  "config_no_uri = \<lparr> mongodb = Some \<lparr> uri = None \<rparr>,
                     gemini = Some \<lparr> key = Some ''secret'' \<rparr> \<rparr>"

definition state_no_key :: state where
  "state_no_key = state_ok\<lparr>genAI := None\<rparr>"

definition state_no_uri :: state where
  "state_no_uri = state_ok\<lparr>mongoUri := None\<rparr>"

text \<open>A POST request to the HTTP endpoint with the valid payload as its body.\<close>

definition post_ok :: http_request where
  "post_ok = \<lparr> req_method = ''POST'', req_body = data_ok \<rparr>"

section \<open>Lemmas about the model\<close>

subsection \<open>The guards and the connection\<close>

lemma trim_empty_iff: "trim t = [] \<longleftrightarrow> (\<forall>c\<in>set t. isWhiteSpace c)"
proof
  assume "trim t = []"
  then have a: "\<forall>c\<in>set (dropWhile isWhiteSpace t). isWhiteSpace c"
    by (simp add: trim_def)
  have "dropWhile isWhiteSpace t = []"
  proof (rule ccontr)
    assume n: "dropWhile isWhiteSpace t \<noteq> []"
    then have "\<not> isWhiteSpace (hd (dropWhile isWhiteSpace t))" by (rule hd_dropWhile)
    moreover have "hd (dropWhile isWhiteSpace t) \<in> set (dropWhile isWhiteSpace t)" using n by simp
    ultimately show False using a by blast
  qed
  then show "\<forall>c\<in>set t. isWhiteSpace c" by simp
next
  assume "\<forall>c\<in>set t. isWhiteSpace c"
  then show "trim t = []" by (auto simp: trim_def dest: set_dropWhileD)
qed

lemma fileContent_rejected_iff:
  "invalid_fileContent v \<longleftrightarrow> (\<forall>t. v = JStr t \<longrightarrow> trim t = [])"
  by (cases v) (auto simp: trim_def invalid_fileContent_def)

lemma fileName_rejected_iff:
  "invalid_fileName v \<longleftrightarrow> (\<forall>t. v = JStr t \<longrightarrow> t = [])"
  by (cases v) (auto simp: invalid_fileName_def)

lemma connectToMongo_frame:
  assumes "connectToMongo e s = (r, s1)"
  shows "store s1 = store s \<and> genAI s1 = genAI s \<and> mongoUri s1 = mongoUri s
         \<and> (\<exists>cs. calls s1 = calls s @ cs \<and> set cs \<subseteq> {Connect, Close})"
  using assms
  by (auto simp: connectToMongo_def Let_def split: if_splits option.splits)

lemma connectToMongo_no_uri:
  "falsy (mongoUri s) \<Longrightarrow> mongoClient s = None \<Longrightarrow> \<exists>x. connectToMongo e s = (Inl x, s)"
  by (simp add: connectToMongo_def)

lemma handler_cases:
  obtains
    (unauthenticated) "auth ctx = None"
      "analyzeCsvContent e data ctx s =
         (Inl (HttpsError ''unauthenticated'' ''The function must be called while authenticated.''), s)"
  | (no_payload) a x where "auth ctx = Some a" "destructure data ''fileContent'' = Inl x"
      "analyzeCsvContent e data ctx s = (Inl x, s)"
  | (bad_content) a v where "auth ctx = Some a" "destructure data ''fileContent'' = Inr v"
      "\<forall>t. v = JStr t \<longrightarrow> trim t = []"
      "analyzeCsvContent e data ctx s =
         (Inl (HttpsError ''invalid-argument''
            (''The function must be called with a non-empty '' @ [CHR 0x22]
              @ ''fileContent'' @ [CHR 0x22] @ '' string.'')), s)"
  | (bad_name) a fc v where "auth ctx = Some a" "destructure data ''fileContent'' = Inr (JStr fc)"
      "trim fc \<noteq> []" "destructure data ''fileName'' = Inr v" "\<forall>t. v = JStr t \<longrightarrow> t = []"
      "analyzeCsvContent e data ctx s =
         (Inl (HttpsError ''invalid-argument''
            (''The function must be called with a '' @ [CHR 0x22]
              @ ''fileName'' @ [CHR 0x22] @ '' string.'')), s)"
  | (no_genAI) a fc fn where "auth ctx = Some a" "destructure data ''fileContent'' = Inr (JStr fc)"
      "trim fc \<noteq> []" "destructure data ''fileName'' = Inr (JStr fn)" "fn \<noteq> []" "genAI s = None"
      "analyzeCsvContent e data ctx s =
         (Inl (HttpsError ''internal'' ''AI Service Initialization Failed. Contact support.''), s)"
  | (no_db) a fc fn x s1 where "auth ctx = Some a" "destructure data ''fileContent'' = Inr (JStr fc)"
      "trim fc \<noteq> []" "destructure data ''fileName'' = Inr (JStr fn)" "fn \<noteq> []" "genAI s \<noteq> None"
      "connectToMongo e s = (Inl x, s1)"
      "analyzeCsvContent e data ctx s =
         (Inl (HttpsError ''internal'' ''Database connection failed. Contact support.''), s1)"
  | (run) a fc fn s1 where "auth ctx = Some a" "destructure data ''fileContent'' = Inr (JStr fc)"
      "trim fc \<noteq> []" "destructure data ''fileName'' = Inr (JStr fn)" "fn \<noteq> []" "genAI s \<noteq> None"
      "connectToMongo e s = (Inr (), s1)"
      "analyzeCsvContent e data ctx s = try_catch e (analysisRecord e a (JStr fn)) (JStr fc) s1"
proof (cases "auth ctx")
  case None
  then show ?thesis using unauthenticated by (simp add: analyzeCsvContent_def)
next
  case (Some a)
  show ?thesis
  proof (cases "destructure data ''fileContent''")
    case (Inl x)
    then show ?thesis using Some no_payload by (simp add: analyzeCsvContent_def)
  next
    case (Inr v)
    have "\<exists>w. destructure data ''fileName'' = Inr w"
      using Inr by (cases data) auto
    then obtain w where w: "destructure data ''fileName'' = Inr w" by blast
    show ?thesis
    proof (cases "invalid_fileContent v")
      case True
      have "analyzeCsvContent e data ctx s =
         (Inl (HttpsError ''invalid-argument''
            (''The function must be called with a non-empty '' @ [CHR 0x22]
              @ ''fileContent'' @ [CHR 0x22] @ '' string.'')), s)"
        by (simp add: analyzeCsvContent_def Some Inr w True)
      then show ?thesis
        using bad_content [OF Some Inr] True by (simp add: fileContent_rejected_iff)
    next
      case vc: False
      then obtain fc where fc: "v = JStr fc" "trim fc \<noteq> []"
        by (auto simp: fileContent_rejected_iff)
      show ?thesis
      proof (cases "invalid_fileName w")
        case True
        have "analyzeCsvContent e data ctx s =
           (Inl (HttpsError ''invalid-argument''
              (''The function must be called with a '' @ [CHR 0x22]
                @ ''fileName'' @ [CHR 0x22] @ '' string.'')), s)"
          by (simp add: analyzeCsvContent_def Some Inr w vc True)
        then show ?thesis
          using bad_name [OF Some Inr [unfolded fc(1)] fc(2) w] True
          by (simp add: fileName_rejected_iff)
      next
        case vn: False
        then obtain fn where fn: "w = JStr fn" "fn \<noteq> []"
          by (auto simp: fileName_rejected_iff)
        note pre = Some Inr [unfolded fc(1)] fc(2) w [unfolded fn(1)] fn(2)
        show ?thesis
        proof (cases "genAI s = None")
          case True
          have "analyzeCsvContent e data ctx s =
             (Inl (HttpsError ''internal'' ''AI Service Initialization Failed. Contact support.''), s)"
            by (simp add: analyzeCsvContent_def Some Inr w vc vn True)
          then show ?thesis by (rule no_genAI [OF pre True])
        next
          case g: False
          obtain r s1 where c: "connectToMongo e s = (r, s1)" by (cases "connectToMongo e s")
          show ?thesis
          proof (cases r)
            case (Inl x)
            have "analyzeCsvContent e data ctx s =
               (Inl (HttpsError ''internal'' ''Database connection failed. Contact support.''), s1)"
              by (simp add: analyzeCsvContent_def Some Inr w vc vn g c Inl)
            then show ?thesis by (rule no_db [OF pre g c [unfolded Inl]])
          next
            case r: (Inr u)
            have "analyzeCsvContent e data ctx s =
               try_catch e (analysisRecord e a (JStr fn)) (JStr fc) s1"
              by (simp add: analyzeCsvContent_def pre(1,2,4) vc [unfolded fc(1)] vn [unfolded fn(1)]
                       g c r)
            moreover have "connectToMongo e s = (Inr (), s1)" using c r by simp
            ultimately show ?thesis using run [OF pre g] by blast
          qed
        qed
      qed
    qed
  qed
qed



subsection \<open>What the try statement does, outcome by outcome\<close>

lemma try_catch_insert_throws:
  "insertOne_result e = Inl x \<Longrightarrow>
   try_catch e rec (JStr fc) s =
     (Inl (HttpsError ''internal'' (''AI Analysis Failed: '' @ errorMessage x)),
      s\<lparr>calls := calls s @ [InsertOne rec]\<rparr>)"
  by (simp add: try_catch_def try_block_def catch_block_def insertOne_def)

lemma try_catch_duplicate:
  "insertOne_result e = Inr oid \<Longrightarrow> store s oid \<noteq> None \<Longrightarrow>
   try_catch e rec (JStr fc) s =
     (Inl (HttpsError ''internal'' (''AI Analysis Failed: ''
        @ ''E11000 duplicate key error collection: innovantaDB.analysisReports'')),
      s\<lparr>calls := calls s @ [InsertOne rec]\<rparr>)"
  by (auto simp add: try_catch_def try_block_def catch_block_def insertOne_def errorMessage_def
        falsy_def)

lemma try_catch_generate_throws:
  "insertOne_result e = Inr oid \<Longrightarrow> store s oid = None \<Longrightarrow> generateContent_result e = Inl x \<Longrightarrow>
   try_catch e rec (JStr fc) s =
     (Inl (HttpsError ''internal'' (''AI Analysis Failed: '' @ errorMessage x)),
      s\<lparr>calls := calls s @ [InsertOne rec,
                              GenerateContent ''gemini-1.5-flash'' systemPrompt (userQuery fc),
                              UpdateOne oid [SetStatus ''error'', SetError (errorMessage x),
                                             SetLastUpdated (date_error e)]],
        store := (store s)(oid \<mapsto>
                   (if updateOne_error_throws e = None
                    then rec\<lparr>status := ''error'', error := Some (errorMessage x),
                             lastUpdated := Some (date_error e)\<rparr>
                    else rec))\<rparr>)"
  by (auto simp add: try_catch_def try_block_def catch_block_def insertOne_def generateContent_def
        updateOne_def Let_def split: option.splits)

lemma try_catch_no_text:
  "insertOne_result e = Inr oid \<Longrightarrow> store s oid = None \<Longrightarrow> generateContent_result e = Inr r \<Longrightarrow>
   checked_text r = None \<Longrightarrow>
   x = Error (Some ''AI analysis returned an invalid or empty response structure.'') \<Longrightarrow>
   try_catch e rec (JStr fc) s =
     (Inl (HttpsError ''internal'' (''AI Analysis Failed: '' @ errorMessage x)),
      s\<lparr>calls := calls s @ [InsertOne rec,
                              GenerateContent ''gemini-1.5-flash'' systemPrompt (userQuery fc),
                              UpdateOne oid [SetStatus ''error'', SetError (errorMessage x),
                                             SetLastUpdated (date_error e)]],
        store := (store s)(oid \<mapsto>
                   (if updateOne_error_throws e = None
                    then rec\<lparr>status := ''error'', error := Some (errorMessage x),
                             lastUpdated := Some (date_error e)\<rparr>
                    else rec))\<rparr>)"
  by (auto simp add: try_catch_def try_block_def catch_block_def insertOne_def generateContent_def
        updateOne_def Let_def split: option.splits)

lemma try_catch_update_throws:
  "insertOne_result e = Inr oid \<Longrightarrow> store s oid = None \<Longrightarrow> generateContent_result e = Inr r \<Longrightarrow>
   checked_text r = Some t \<Longrightarrow> updateOne_completed_throws e = Some x \<Longrightarrow>
   try_catch e rec (JStr fc) s =
     (Inl (HttpsError ''internal'' (''AI Analysis Failed: '' @ errorMessage x)),
      s\<lparr>calls := calls s @ [InsertOne rec,
                              GenerateContent ''gemini-1.5-flash'' systemPrompt (userQuery fc),
                              UpdateOne oid [SetStatus ''completed'', SetReport t,
                                             SetLastUpdated (date_completed e)],
                              UpdateOne oid [SetStatus ''error'', SetError (errorMessage x),
                                             SetLastUpdated (date_error e)]],
        store := (store s)(oid \<mapsto>
                   (if updateOne_error_throws e = None
                    then rec\<lparr>status := ''error'', error := Some (errorMessage x),
                             lastUpdated := Some (date_error e)\<rparr>
                    else rec))\<rparr>)"
  by (auto simp add: try_catch_def try_block_def catch_block_def insertOne_def generateContent_def
        updateOne_def Let_def split: option.splits)

lemma try_catch_completed:
  "insertOne_result e = Inr oid \<Longrightarrow> store s oid = None \<Longrightarrow> generateContent_result e = Inr r \<Longrightarrow>
   checked_text r = Some t \<Longrightarrow> updateOne_completed_throws e = None \<Longrightarrow>
   try_catch e rec (JStr fc) s =
     (Inr \<lparr> res_status = ''completed'', res_reportId = oid, res_report = t,
            res_fileName = fileName rec, res_createdAt = createdAt rec \<rparr>,
      s\<lparr>calls := calls s @ [InsertOne rec,
                              GenerateContent ''gemini-1.5-flash'' systemPrompt (userQuery fc),
                              UpdateOne oid [SetStatus ''completed'', SetReport t,
                                             SetLastUpdated (date_completed e)]],
        store := (store s)(oid \<mapsto> rec\<lparr>status := ''completed'', report := Some t,
                                        lastUpdated := Some (date_completed e)\<rparr>)\<rparr>)"
  by (auto simp add: try_catch_def try_block_def catch_block_def insertOne_def generateContent_def
        updateOne_def Let_def split: option.splits)

subsection \<open>The outcomes of one request\<close>

lemma later_failure_cases:
  assumes "later_failure e = Some err"
  obtains
    (generate_throws) "generateContent_result e = Inl err"
  | (no_text) r where "generateContent_result e = Inr r" "checked_text r = None"
      "err = Error (Some ''AI analysis returned an invalid or empty response structure.'')"
  | (update_throws) r t where "generateContent_result e = Inr r" "checked_text r = Some t"
      "updateOne_completed_throws e = Some err"
  using assms by (auto simp: later_failure_def split: sum.splits option.splits)

lemma later_failure_None:
  "later_failure e = None \<longleftrightarrow>
     (\<exists>r t. generateContent_result e = Inr r \<and> checked_text r = Some t
            \<and> updateOne_completed_throws e = None)"
  by (auto simp: later_failure_def split: sum.splits option.splits)

lemma request_cases:
  assumes run: "analyzeCsvContent e data ctx s = (out, s')"
  obtains
    (blocked) x cs where "out = Inl x" "store s' = store s" "calls s' = calls s @ cs"
      "set cs \<subseteq> {Connect, Close}"
      "auth ctx = None
       \<or> (\<exists>y. destructure data ''fileContent'' = Inl y)
       \<or> (\<exists>v. destructure data ''fileContent'' = Inr v \<and> (\<forall>t. v = JStr t \<longrightarrow> trim t = []))
       \<or> (\<exists>v. destructure data ''fileName'' = Inr v \<and> (\<forall>t. v = JStr t \<longrightarrow> t = []))
       \<or> genAI s = None
       \<or> (\<exists>y. fst (connectToMongo e s) = Inl y)"
  | (insert_failed) a fc fn x cs where
      "auth ctx = Some a" "destructure data ''fileContent'' = Inr (JStr fc)" "trim fc \<noteq> []"
      "destructure data ''fileName'' = Inr (JStr fn)" "fn \<noteq> []"
      "(\<exists>y. insertOne_result e = Inl y)
         \<or> (\<exists>oid. insertOne_result e = Inr oid \<and> store s oid \<noteq> None)"
      "out = Inl x" "store s' = store s"
      "calls s' = calls s @ cs @ [InsertOne (analysisRecord e a (JStr fn))]"
      "set cs \<subseteq> {Connect, Close}"
  | (failed) a fc fn oid err cs mid where
      "auth ctx = Some a" "destructure data ''fileContent'' = Inr (JStr fc)" "trim fc \<noteq> []"
      "destructure data ''fileName'' = Inr (JStr fn)" "fn \<noteq> []"
      "insertOne_result e = Inr oid" "store s oid = None" "later_failure e = Some err"
      "out = Inl (HttpsError ''internal'' (''AI Analysis Failed: '' @ errorMessage err))"
      "store s' = (store s)(oid \<mapsto>
         (if updateOne_error_throws e = None
          then (analysisRecord e a (JStr fn))\<lparr>status := ''error'', error := Some (errorMessage err),
                 lastUpdated := Some (date_error e)\<rparr>
          else analysisRecord e a (JStr fn)))"
      "calls s' = calls s @ cs @ [InsertOne (analysisRecord e a (JStr fn)),
          GenerateContent ''gemini-1.5-flash'' systemPrompt (userQuery fc)] @ mid
          @ [UpdateOne oid [SetStatus ''error'', SetError (errorMessage err),
                            SetLastUpdated (date_error e)]]"
      "set cs \<subseteq> {Connect, Close}"
      "mid = [] \<or> (\<exists>t. mid = [UpdateOne oid [SetStatus ''completed'', SetReport t,
                                                 SetLastUpdated (date_completed e)]])"
  | (completed) a fc fn oid r t cs where
      "auth ctx = Some a" "destructure data ''fileContent'' = Inr (JStr fc)" "trim fc \<noteq> []"
      "destructure data ''fileName'' = Inr (JStr fn)" "fn \<noteq> []"
      "insertOne_result e = Inr oid" "store s oid = None"
      "generateContent_result e = Inr r" "checked_text r = Some t"
      "updateOne_completed_throws e = None"
      "out = Inr \<lparr> res_status = ''completed'', res_reportId = oid, res_report = t,
                    res_fileName = JStr fn, res_createdAt = date_createdAt e \<rparr>"
      "store s' = (store s)(oid \<mapsto>
         (analysisRecord e a (JStr fn))\<lparr>status := ''completed'', report := Some t,
            lastUpdated := Some (date_completed e)\<rparr>)"
      "calls s' = calls s @ cs @ [InsertOne (analysisRecord e a (JStr fn)),
          GenerateContent ''gemini-1.5-flash'' systemPrompt (userQuery fc),
          UpdateOne oid [SetStatus ''completed'', SetReport t, SetLastUpdated (date_completed e)]]"
      "set cs \<subseteq> {Connect, Close}"
proof (cases rule: handler_cases [of ctx e data s])
  case unauthenticated
  then show ?thesis using run blocked [of _ "[]"] by simp
next
  case (no_payload a x)
  then show ?thesis using run blocked [of _ "[]"] by simp
next
  case (bad_content a v)
  then show ?thesis using run blocked [of _ "[]"] by simp
next
  case (bad_name a fc v)
  then show ?thesis using run blocked [of _ "[]"] by simp
next
  case (no_genAI a fc fn)
  then show ?thesis using run blocked [of _ "[]"] by simp
next
  case (no_db a fc fn x s1)
  from connectToMongo_frame [OF no_db(7)] obtain cs where
    "store s1 = store s" "calls s1 = calls s @ cs" "set cs \<subseteq> {Connect, Close}" by blast
  moreover have "out = Inl (HttpsError ''internal'' ''Database connection failed. Contact support.'')"
    and "s' = s1" using assms no_db(8) by simp_all
  moreover have "\<exists>y. fst (connectToMongo e s) = Inl y" using no_db(7) by simp
  ultimately show ?thesis using blocked [of _ cs] by simp
next
  case (run a fc fn s1)
  note valid = run(1-5)
  let ?rec = "analysisRecord e a (JStr fn)"
  from connectToMongo_frame [OF run(7)] obtain cs where
    s1: "store s1 = store s" "calls s1 = calls s @ cs" and cs: "set cs \<subseteq> {Connect, Close}"
    by blast
  have eq: "try_catch e ?rec (JStr fc) s1 = (out, s')" using run(8) assms by simp
  show ?thesis
  proof (cases "insertOne_result e")
    case (Inl x)
    from try_catch_insert_throws [OF Inl, of ?rec fc s1] eq
    have "\<exists>x. out = Inl x" and "s' = s1\<lparr>calls := calls s1 @ [InsertOne ?rec]\<rparr>" by simp_all
    then show ?thesis using insert_failed [OF valid _ _ _ _ cs] Inl s1 by auto
  next
    case (Inr oid)
    show ?thesis
    proof (cases "store s oid")
      case (Some r0)
      then have "store s1 oid \<noteq> None" using s1 by simp
      from try_catch_duplicate [OF Inr this, of ?rec fc] eq
      have "\<exists>x. out = Inl x" and "s' = s1\<lparr>calls := calls s1 @ [InsertOne ?rec]\<rparr>" by simp_all
      then show ?thesis using insert_failed [OF valid _ _ _ _ cs] Inr Some s1 by auto
    next
      case None
      then have free: "store s1 oid = None" using s1 by simp
      show ?thesis
      proof (cases "later_failure e")
        case (Some err)
        then show ?thesis
        proof (cases rule: later_failure_cases)
          case generate_throws
          from try_catch_generate_throws [OF Inr free generate_throws, of ?rec fc] eq
          have "out = Inl (HttpsError ''internal'' (''AI Analysis Failed: '' @ errorMessage err))"
            and "store s' = (store s)(oid \<mapsto>
                   (if updateOne_error_throws e = None
                    then ?rec\<lparr>status := ''error'', error := Some (errorMessage err),
                           lastUpdated := Some (date_error e)\<rparr>
                    else ?rec))"
            and "calls s' = calls s @ cs @ [InsertOne ?rec,
                   GenerateContent ''gemini-1.5-flash'' systemPrompt (userQuery fc)] @ []
                   @ [UpdateOne oid [SetStatus ''error'', SetError (errorMessage err),
                                     SetLastUpdated (date_error e)]]"
            using s1 by auto
          then show ?thesis using failed [OF valid Inr None Some _ _ _ cs, of "[]"] by blast
        next
          case (no_text r)
          from try_catch_no_text [OF Inr free no_text, of ?rec fc] eq
          have "out = Inl (HttpsError ''internal'' (''AI Analysis Failed: '' @ errorMessage err))"
            and "store s' = (store s)(oid \<mapsto>
                   (if updateOne_error_throws e = None
                    then ?rec\<lparr>status := ''error'', error := Some (errorMessage err),
                           lastUpdated := Some (date_error e)\<rparr>
                    else ?rec))"
            and "calls s' = calls s @ cs @ [InsertOne ?rec,
                   GenerateContent ''gemini-1.5-flash'' systemPrompt (userQuery fc)] @ []
                   @ [UpdateOne oid [SetStatus ''error'', SetError (errorMessage err),
                                     SetLastUpdated (date_error e)]]"
            using s1 by auto
          then show ?thesis using failed [OF valid Inr None Some _ _ _ cs, of "[]"] by blast
        next
          case (update_throws r t)
          let ?mid = "[UpdateOne oid [SetStatus ''completed'', SetReport t,
                                      SetLastUpdated (date_completed e)]]"
          from try_catch_update_throws [OF Inr free update_throws, of ?rec fc] eq
          have "out = Inl (HttpsError ''internal'' (''AI Analysis Failed: '' @ errorMessage err))"
            and "store s' = (store s)(oid \<mapsto>
                   (if updateOne_error_throws e = None
                    then ?rec\<lparr>status := ''error'', error := Some (errorMessage err),
                           lastUpdated := Some (date_error e)\<rparr>
                    else ?rec))"
            and "calls s' = calls s @ cs @ [InsertOne ?rec,
                   GenerateContent ''gemini-1.5-flash'' systemPrompt (userQuery fc)] @ ?mid
                   @ [UpdateOne oid [SetStatus ''error'', SetError (errorMessage err),
                                     SetLastUpdated (date_error e)]]"
            using s1 by auto
          then show ?thesis using failed [OF valid Inr None Some _ _ _ cs, of ?mid] by blast
        qed
      next
        case none: None
        then obtain r t where ok: "generateContent_result e = Inr r" "checked_text r = Some t"
          "updateOne_completed_throws e = None"
          by (auto simp: later_failure_None)
        from try_catch_completed [OF Inr free ok, of ?rec fc] eq
        have "out = Inr \<lparr> res_status = ''completed'', res_reportId = oid, res_report = t,
                    res_fileName = JStr fn, res_createdAt = date_createdAt e \<rparr>"
          and "store s' = (store s)(oid \<mapsto> ?rec\<lparr>status := ''completed'', report := Some t,
                  lastUpdated := Some (date_completed e)\<rparr>)"
          and "calls s' = calls s @ cs @ [InsertOne ?rec,
                 GenerateContent ''gemini-1.5-flash'' systemPrompt (userQuery fc),
                 UpdateOne oid [SetStatus ''completed'', SetReport t,
                                SetLastUpdated (date_completed e)]]"
          using s1 by (auto simp: analysisRecord_def)
        then show ?thesis using completed [OF valid Inr None ok _ _ _ cs] by blast
      qed
    qed
  qed
qed

subsection \<open>The concrete runs\<close>

lemmas handler_defs = analyzeCsvContent_def try_catch_def try_block_def catch_block_def
  connectToMongo_def insertOne_def updateOne_def generateContent_def invalid_fileContent_def
  invalid_fileName_def analysisRecord_def checked_text_def invalid_response_def first_text_def
  falsy_def errorMessage_def trim_def isWhiteSpace_def

lemmas example_defs = env_ok_def state_ok_def data_ok_def context_ok_def response_with_text_def
  response_without_text_def env_update_throws_def env_generate_throws_def
  env_nothing_recorded_def env_no_text_def

lemma run_ok_eq:
  "run_ok =
     (Inr \<lparr> res_status = ''completed'', res_reportId = 7, res_report = ''# Report'',
            res_fileName = JStr ''sales.csv'', res_createdAt = 100 \<rparr>,
      state_ok\<lparr> mongoClient := Some ''mongodb+srv://host'',
        store := [7 \<mapsto> \<lparr> userId = ''u1'', fileName = JStr ''sales.csv'', status = ''completed'',
                          createdAt = 100, report = Some ''# Report'', error = None,
                          lastUpdated = Some 200 \<rparr>],
        calls := [Connect,
                  InsertOne \<lparr> userId = ''u1'', fileName = JStr ''sales.csv'', status = ''processing'',
                              createdAt = 100, report = None, error = None, lastUpdated = None \<rparr>,
                  GenerateContent ''gemini-1.5-flash'' systemPrompt (userQuery ''month,revenue''),
                  UpdateOne 7 [SetStatus ''completed'', SetReport ''# Report'', SetLastUpdated 200]] \<rparr>)"
  by (simp add: run_ok_def handler_defs example_defs)

lemma run_update_throws_eq:
  "run_update_throws =
     (Inl (HttpsError ''internal'' ''AI Analysis Failed: connection reset''),
      state_ok\<lparr> mongoClient := Some ''mongodb+srv://host'',
        store := [7 \<mapsto> \<lparr> userId = ''u1'', fileName = JStr ''sales.csv'', status = ''error'',
                          createdAt = 100, report = None, error = Some ''connection reset'',
                          lastUpdated = Some 300 \<rparr>],
        calls := [Connect,
                  InsertOne \<lparr> userId = ''u1'', fileName = JStr ''sales.csv'', status = ''processing'',
                              createdAt = 100, report = None, error = None, lastUpdated = None \<rparr>,
                  GenerateContent ''gemini-1.5-flash'' systemPrompt (userQuery ''month,revenue''),
                  UpdateOne 7 [SetStatus ''completed'', SetReport ''# Report'', SetLastUpdated 200],
                  UpdateOne 7 [SetStatus ''error'', SetError ''connection reset'', SetLastUpdated 300]] \<rparr>)"
  by (simp add: run_update_throws_def handler_defs example_defs)



lemma run_no_text_eq:
  "run_no_text =
     (Inl (HttpsError ''internal''
        ''AI Analysis Failed: AI analysis returned an invalid or empty response structure.''),
      state_ok\<lparr> mongoClient := Some ''mongodb+srv://host'',
        store := [7 \<mapsto> \<lparr> userId = ''u1'', fileName = JStr ''sales.csv'', status = ''error'',
                          createdAt = 100, report = None,
                          error = Some ''AI analysis returned an invalid or empty response structure.'',
                          lastUpdated = Some 300 \<rparr>],
        calls := [Connect,
                  InsertOne \<lparr> userId = ''u1'', fileName = JStr ''sales.csv'', status = ''processing'',
                              createdAt = 100, report = None, error = None, lastUpdated = None \<rparr>,
                  GenerateContent ''gemini-1.5-flash'' systemPrompt (userQuery ''month,revenue''),
                  UpdateOne 7 [SetStatus ''error'',
                     SetError ''AI analysis returned an invalid or empty response structure.'',
                     SetLastUpdated 300]] \<rparr>)"
  by (simp add: run_no_text_def handler_defs example_defs)

lemma new_calls_append: "calls s' = calls s @ cs \<Longrightarrow> new_calls s s' = cs"
  by (simp add: new_calls_def)

subsection \<open>What requests do to the collection\<close>






subsection \<open>Small facts on lists, payloads and responses\<close>


lemma destructure_Inl:
  "destructure_of src data k = Inl x \<Longrightarrow> data = JUndefined \<or> data = JNull"
  by (cases data) auto

lemma checked_text_None: "checked_text r = None \<longleftrightarrow> invalid_response r"
  by (auto simp: checked_text_def invalid_response_def falsy_def split: option.splits)

text \<open>The endpoint on a body whose \<open>fileContent\<close> is an object with a property
  \<open>toString\<close>: the template literal throws, the answer is 500 and no call is made.\<close>

lemma analyze_toString_throws:
  "analyze answer \<lparr> req_method = ''POST'',
                    req_body = JObj [(''fileContent'', JObj [(''toString'', JNum True ''1'')])] \<rparr>
     = (server_error (Error (Some ''Cannot convert object to primitive value'')), [])"
  by (simp add: analyze_def)

subsection \<open>What the two system instructions say\<close>

lemma sublist_skip: "sublist xs ys \<Longrightarrow> sublist xs (zs @ ys)"
  by (simp add: sublist_append)

lemma systemPrompt_says:
  "sublist ''You are a world-class SME Financial and Business Analyst.'' systemPrompt"
  "sublist ''The response must be structured using Markdown.'' systemPrompt"
  "sublist ''five sections'' systemPrompt"
  "sublist ''1. EXECUTIVE SUMMARY:'' systemPrompt"
  "sublist ''2. ACTIONABLE INSIGHTS:'' systemPrompt"
  "sublist ''3. KEY PERFORMANCE INDICATORS (KPIs) & TRENDS:'' systemPrompt"
  "sublist ''4. ROI & FORECAST:'' systemPrompt"
  "sublist ''5. CRITICAL ALERTS:'' systemPrompt"
  unfolding systemPrompt_def
  by (rule sublist_append_rightI | rule sublist_skip)+

lemma systemPrompt_api_says:
  "sublist ''You are a world-class SME Financial and Business Analyst.'' systemPrompt_api"
  "sublist ''The response must be structured using Markdown.'' systemPrompt_api"
  "sublist ''four sections'' systemPrompt_api"
  "sublist ''1. EXECUTIVE SUMMARY:'' systemPrompt_api"
  "sublist ''2. ACTIONABLE INSIGHTS:'' systemPrompt_api"
  "sublist ''3. KEY PERFORMANCE INDICATORS (KPIs) & TRENDS:'' systemPrompt_api"
  "sublist ''4. ROI & FORECAST:'' systemPrompt_api"
  unfolding systemPrompt_api_def
  by (rule sublist_append_rightI | rule sublist_skip)+

lemma systemPrompt_api_no_alerts:
  "\<not> sublist ''LERT'' systemPrompt_api" "\<not> sublist ''lert'' systemPrompt_api"
  unfolding systemPrompt_api_def by code_simp+

subsection \<open>A module with a secret missing\<close>

lemma module_init_Inr:
  assumes "module_init cfg db = Inr s0"
  shows "mongoClient s0 = None \<and> calls s0 = [] \<and> store s0 = db
         \<and> (uri_missing cfg \<longrightarrow> falsy (mongoUri s0)) \<and> (key_missing cfg \<longrightarrow> genAI s0 = None)"
  using assms
  by (auto simp: module_init_def uri_missing_def key_missing_def split: option.splits if_splits)

lemma blocked_request:
  assumes "falsy (mongoUri s) \<and> mongoClient s = None \<or> genAI s = None"
  shows "\<exists>x. analyzeCsvContent e data ctx s = (Inl x, s)"
proof (cases rule: handler_cases [of ctx e data s])
  case (no_db a fc fn x s1)
  then have "falsy (mongoUri s)" "mongoClient s = None" using assms by auto
  from connectToMongo_no_uri [OF this, of e] no_db(7) have "s1 = s" by auto
  then show ?thesis using no_db(8) by simp
next
  case (run a fc fn s1)
  then have "falsy (mongoUri s)" "mongoClient s = None" using assms by auto
  from connectToMongo_no_uri [OF this, of e] run(7) show ?thesis by auto
qed simp_all

lemma blocked_serve:
  assumes "falsy (mongoUri s) \<and> mongoClient s = None \<or> genAI s = None"
  shows "serve reqs s = (outs, s') \<Longrightarrow> s' = s \<and> list_all isl outs \<and> length outs = length reqs"
proof (induction reqs arbitrary: outs s')
  case Nil
  then show ?case by simp
next
  case (Cons q reqs)
  from blocked_request [OF assms] obtain x where
    first: "analyzeCsvContent (req_env q) (req_data q) (req_context q) s = (Inl x, s)" by blast
  obtain outs' s2 where rest: "serve reqs s = (outs', s2)" by (cases "serve reqs s")
  from Cons.IH [OF rest] have "s2 = s" "list_all isl outs'" "length outs' = length reqs"
    by simp_all
  moreover have "outs = Inl x # outs'" "s' = s2" using Cons.prems first rest by simp_all
  ultimately show ?case by simp
qed

section \<open>The properties\<close>

text \<open>
  C1 (as amended). When the generation call is made and answers with extractable text,
  and the update that marks the record completed does not throw, the record the
  request inserted has status \<open>completed\<close>, its report is the generated text and its
  error is still null, and the handler returns an object with that status, that text
  and the record's identifier.
\<close>

theorem generation_success_completes_record:
  assumes "analyzeCsvContent e data ctx s = (out, s')"
    and "GenerateContent m i q \<in> set (new_calls s s')"
    and "generateContent_result e = Inr r"
    and "checked_text r = Some reportText"
    and "updateOne_completed_throws e = None"
  shows "\<exists>oid rec res.
           insertOne_result e = Inr oid \<and> store s oid = None \<and> store s' oid = Some rec
           \<and> status rec = ''completed'' \<and> report rec = Some reportText \<and> error rec = None
           \<and> out = Inr res \<and> res_status res = ''completed'' \<and> res_report res = reportText
           \<and> res_reportId res = oid"
  using assms(1)
proof (cases rule: request_cases)
  case (blocked x cs)
  then show ?thesis using assms(2) by (auto simp: new_calls_append)
next
  case (insert_failed a fc fn x cs)
  then show ?thesis using assms(2) by (auto simp: new_calls_append)
next
  case (failed a fc fn oid err cs mid)
  then show ?thesis using assms(3-5) by (simp add: later_failure_def)
next
  case (completed a fc fn oid r' t cs)
  then show ?thesis using assms(3,4) by (simp add: analysisRecord_def)
qed

text \<open>The same at a concrete request: the valid request in the world where every call
  succeeds.\<close>

theorem generation_success_completes_record_witness:
  "GenerateContent ''gemini-1.5-flash'' systemPrompt (userQuery ''month,revenue'')
     \<in> set (new_calls state_ok (snd run_ok))
   \<and> generateContent_result env_ok = Inr (Some response_with_text)
   \<and> checked_text (Some response_with_text) = Some ''# Report''
   \<and> updateOne_completed_throws env_ok = None
   \<and> (\<exists>oid rec res.
          insertOne_result env_ok = Inr oid \<and> store state_ok oid = None
          \<and> store (snd run_ok) oid = Some rec
          \<and> status rec = ''completed'' \<and> report rec = Some ''# Report'' \<and> error rec = None
          \<and> fst run_ok = Inr res \<and> res_status res = ''completed'' \<and> res_report res = ''# Report''
          \<and> res_reportId res = oid)"
proof -
  have run: "analyzeCsvContent env_ok data_ok context_ok state_ok = (fst run_ok, snd run_ok)"
    by (simp add: run_ok_def)
  have called: "GenerateContent ''gemini-1.5-flash'' systemPrompt (userQuery ''month,revenue'')
     \<in> set (new_calls state_ok (snd run_ok))"
    by (simp add: run_ok_eq new_calls_def state_ok_def)
  have answer: "generateContent_result env_ok = Inr (Some response_with_text)"
    by (simp add: env_ok_def)
  have has_text: "checked_text (Some response_with_text) = Some ''# Report''"
    by (simp add: checked_text_def invalid_response_def first_text_def falsy_def
          response_with_text_def)
  have update: "updateOne_completed_throws env_ok = None"
    by (simp add: env_ok_def)
  from generation_success_completes_record [OF run called answer has_text update]
  show ?thesis using called answer has_text update by blast
qed

text \<open>
  C1 as stated fails: the generation call succeeds with the text \<open># Report\<close>, the update
  that marks the record completed throws, and the handler throws an \<open>internal\<close> error
  while the record ends with status \<open>error\<close> and no report.
\<close>

theorem generation_success_update_throws_counterexample:
  "generateContent_result env_update_throws = Inr (Some response_with_text)
   \<and> checked_text (Some response_with_text) = Some ''# Report''
   \<and> GenerateContent ''gemini-1.5-flash'' systemPrompt (userQuery ''month,revenue'')
        \<in> set (new_calls state_ok (snd run_update_throws))
   \<and> fst run_update_throws = Inl (HttpsError ''internal'' ''AI Analysis Failed: connection reset'')
   \<and> store (snd run_update_throws) 7 =
        Some \<lparr> userId = ''u1'', fileName = JStr ''sales.csv'', status = ''error'',
               createdAt = 100, report = None, error = Some ''connection reset'',
               lastUpdated = Some 300 \<rparr>"
  by (simp add: run_update_throws_eq new_calls_def state_ok_def env_update_throws_def env_ok_def
        checked_text_def invalid_response_def first_text_def falsy_def response_with_text_def)








text \<open>
  C5 (as amended). When the payload has no \<open>fileContent\<close>, or one that is not a string
  or consists of white space only, the request is rejected and nothing else happens:
  no record is inserted and no call leaves the process. The error is
  \<open>invalid-argument\<close> when the caller is authenticated and the payload is neither
  undefined nor null.
\<close>

theorem blank_fileContent_rejected:
  assumes "\<forall>t. destructure data ''fileContent'' = Inr (JStr t) \<longrightarrow> (\<forall>c\<in>set t. isWhiteSpace c)"
  shows "snd (analyzeCsvContent e data ctx s) = s
         \<and> isl (fst (analyzeCsvContent e data ctx s))
         \<and> (auth ctx \<noteq> None \<and> data \<noteq> JUndefined \<and> data \<noteq> JNull \<longrightarrow>
              fst (analyzeCsvContent e data ctx s) =
                Inl (HttpsError ''invalid-argument''
                  (''The function must be called with a non-empty '' @ [CHR 0x22]
                    @ ''fileContent'' @ [CHR 0x22] @ '' string.'')))"
proof (cases rule: handler_cases [of ctx e data s])
  case unauthenticated
  then show ?thesis by simp
next
  case (no_payload a x)
  then show ?thesis using destructure_Inl [OF no_payload(2)] by auto
next
  case (bad_content a v)
  then show ?thesis by simp
next
  case (bad_name a fc v)
  then show ?thesis using assms by (simp add: trim_empty_iff)
next
  case (no_genAI a fc fn)
  then show ?thesis using assms by (simp add: trim_empty_iff)
next
  case (no_db a fc fn x s1)
  then show ?thesis using assms by (simp add: trim_empty_iff)
next
  case (run a fc fn s1)
  then show ?thesis using assms by (simp add: trim_empty_iff)
qed

text \<open>A payload whose \<open>fileContent\<close> is three spaces, from an authenticated caller.\<close>

theorem blank_fileContent_rejected_witness:
  "destructure (JObj [(''fileContent'', JStr ''   ''), (''fileName'', JStr ''sales.csv'')])
       ''fileContent'' = Inr (JStr ''   '')
   \<and> list_all isWhiteSpace ''   ''
   \<and> auth context_ok \<noteq> None
   \<and> analyzeCsvContent env_ok
        (JObj [(''fileContent'', JStr ''   ''), (''fileName'', JStr ''sales.csv'')])
        context_ok state_ok =
        (Inl (HttpsError ''invalid-argument''
           (''The function must be called with a non-empty '' @ [CHR 0x22]
             @ ''fileContent'' @ [CHR 0x22] @ '' string.'')), state_ok)"
proof -
  let ?data = "JObj [(''fileContent'', JStr ''   ''), (''fileName'', JStr ''sales.csv'')]"
  have blank: "\<forall>t. destructure ?data ''fileContent'' = Inr (JStr t) \<longrightarrow> (\<forall>c\<in>set t. isWhiteSpace c)"
    by (simp add: isWhiteSpace_def)
  have caller: "auth context_ok \<noteq> None" by (simp add: context_ok_def)
  have spaces: "list_all isWhiteSpace ''   ''" by (simp add: isWhiteSpace_def)
  from blank_fileContent_rejected [OF blank, of env_ok context_ok state_ok] caller
  show ?thesis using spaces
    by (cases "analyzeCsvContent env_ok ?data context_ok state_ok") simp
qed

text \<open>
  C5 as stated fails for a caller with no identity, whose blank \<open>fileContent\<close> is
  answered with \<open>unauthenticated\<close>, and for a null payload, on which the
  destructuring of line 87 throws a TypeError before the validation.
\<close>

theorem blank_fileContent_other_error_counterexample:
  "fst (analyzeCsvContent env_ok
          (JObj [(''fileContent'', JStr ''   ''), (''fileName'', JStr ''sales.csv'')])
          \<lparr> auth = None \<rparr> state_ok)
     = Inl (HttpsError ''unauthenticated'' ''The function must be called while authenticated.'')
   \<and> \<not> rejected_with ''invalid-argument''
        (fst (analyzeCsvContent env_ok
          (JObj [(''fileContent'', JStr ''   ''), (''fileName'', JStr ''sales.csv'')])
          \<lparr> auth = None \<rparr> state_ok))
   \<and> (\<exists>m. fst (analyzeCsvContent env_ok JNull context_ok state_ok) = Inl (Error m))
   \<and> \<not> rejected_with ''invalid-argument'' (fst (analyzeCsvContent env_ok JNull context_ok state_ok))"
  by (simp add: analyzeCsvContent_def context_ok_def rejected_with_def)

text \<open>
  C6 (as amended). In the callable function, a response of the generation service
  without extractable text makes the handler throw an error of its own, with the fixed
  message \<open>AI analysis returned an invalid or empty response structure.\<close>; it is
  handled as every failure is: the update that records the error carries that
  message, no object is returned, and the caller receives the \<open>internal\<close> error
  \<open>AI Analysis Failed: \<close> followed by that message. The HTTP endpoint, when its
  generation call was made and answered with such a response, answers 200 with the
  fixed text \<open>AI analysis failed to generate a report.\<close> as the report.
\<close>

theorem response_without_text_handled:
  "(analyzeCsvContent e data ctx s = (out, s')
      \<and> GenerateContent m i q \<in> set (new_calls s s')
      \<and> generateContent_result e = Inr r \<and> invalid_response r
    \<longrightarrow> out = Inl (HttpsError ''internal''
                 ''AI Analysis Failed: AI analysis returned an invalid or empty response structure.'')
        \<and> (\<exists>oid. insertOne_result e = Inr oid
              \<and> last (calls s') =
                  UpdateOne oid [SetStatus ''error'',
                    SetError ''AI analysis returned an invalid or empty response structure.'',
                    SetLastUpdated (date_error e)]))
   \<and> (analyze (Inr resp) req = (sent, cs)
      \<and> ApiGenerateContent m' ps \<in> set cs
      \<and> falsy (case candidates resp of None \<Rightarrow> None | Some cs \<Rightarrow> first_text cs)
    \<longrightarrow> sent =
          \<lparr> statusCode = 200,
            payload = JObj [(''report'', JStr ''AI analysis failed to generate a report.'')] \<rparr>)"
proof (rule conjI; rule impI)
  assume a: "analyzeCsvContent e data ctx s = (out, s')
      \<and> GenerateContent m i q \<in> set (new_calls s s')
      \<and> generateContent_result e = Inr r \<and> invalid_response r"
  let ?msg = "''AI analysis returned an invalid or empty response structure.''"
  have "checked_text r = None" using a by (simp add: checked_text_None)
  then have fails: "later_failure e = Some (Error (Some ?msg))"
    using a by (simp add: later_failure_def)
  have msg: "errorMessage (Error (Some ?msg)) = ?msg"
    by (simp add: errorMessage_def falsy_def)
  from a have run: "analyzeCsvContent e data ctx s = (out, s')" by simp
  from run show "out = Inl (HttpsError ''internal''
                 ''AI Analysis Failed: AI analysis returned an invalid or empty response structure.'')
        \<and> (\<exists>oid. insertOne_result e = Inr oid
              \<and> last (calls s') =
                  UpdateOne oid [SetStatus ''error'', SetError ?msg, SetLastUpdated (date_error e)])"
  proof (cases rule: request_cases)
    case (blocked x cs)
    then show ?thesis using a by (auto simp: new_calls_append)
  next
    case (insert_failed a' fc fn x cs)
    then show ?thesis using a by (auto simp: new_calls_append)
  next
    case (failed a' fc fn oid err cs mid)
    have "err = Error (Some ?msg)" using failed(8) fails by simp
    then show ?thesis using failed(6,9,11) msg by simp
  next
    case (completed a' fc fn oid r' t cs)
    then show ?thesis using fails by (simp add: later_failure_def)
  qed
next
  assume "analyze (Inr resp) req = (sent, cs)
      \<and> ApiGenerateContent m' ps \<in> set cs
      \<and> falsy (case candidates resp of None \<Rightarrow> None | Some cs \<Rightarrow> first_text cs)"
  then show "sent =
          \<lparr> statusCode = 200,
            payload = JObj [(''report'', JStr ''AI analysis failed to generate a report.'')] \<rparr>"
    by (auto simp: analyze_def Let_def split: if_splits sum.splits)
qed

text \<open>The same at the valid request in the world whose generation call answers with
  no candidates, and at the POST request answered the same way.\<close>

theorem response_without_text_handled_witness:
  "GenerateContent ''gemini-1.5-flash'' systemPrompt (userQuery ''month,revenue'')
     \<in> set (new_calls state_ok (snd run_no_text))
   \<and> generateContent_result env_no_text = Inr (Some response_without_text)
   \<and> invalid_response (Some response_without_text)
   \<and> fst run_no_text = Inl (HttpsError ''internal''
        ''AI Analysis Failed: AI analysis returned an invalid or empty response structure.'')
   \<and> ApiGenerateContent ''gemini-2.5-flash-preview-09-2025''
        [systemPrompt_api,
         [CHR 0x0A] @ ''RAW CSV DATA START:'' @ [CHR 0x0A] @ ''month,revenue'' @ [CHR 0x0A]
           @ ''RAW CSV DATA END'']
       \<in> set (snd (analyze (Inr response_without_text) post_ok))
   \<and> falsy (case candidates response_without_text of None \<Rightarrow> None | Some cs \<Rightarrow> first_text cs)
   \<and> fst (analyze (Inr response_without_text) post_ok) =
        \<lparr> statusCode = 200,
          payload = JObj [(''report'', JStr ''AI analysis failed to generate a report.'')] \<rparr>"
proof -
  have run: "analyzeCsvContent env_no_text data_ok context_ok state_ok = (fst run_no_text, snd run_no_text)"
    by (simp add: run_no_text_def)
  have called: "GenerateContent ''gemini-1.5-flash'' systemPrompt (userQuery ''month,revenue'')
     \<in> set (new_calls state_ok (snd run_no_text))"
    by (simp add: run_no_text_eq new_calls_def state_ok_def)
  have answer: "generateContent_result env_no_text = Inr (Some response_without_text)"
    by (simp add: env_no_text_def env_ok_def)
  have empty: "invalid_response (Some response_without_text)"
    by (simp add: invalid_response_def response_without_text_def first_text_def falsy_def)
  have post: "analyze (Inr response_without_text) post_ok
                = (fst (analyze (Inr response_without_text) post_ok),
                   snd (analyze (Inr response_without_text) post_ok))"
    by simp
  have made: "ApiGenerateContent ''gemini-2.5-flash-preview-09-2025''
        [systemPrompt_api,
         [CHR 0x0A] @ ''RAW CSV DATA START:'' @ [CHR 0x0A] @ ''month,revenue'' @ [CHR 0x0A]
           @ ''RAW CSV DATA END'']
       \<in> set (snd (analyze (Inr response_without_text) post_ok))"
    by (simp add: analyze_def post_ok_def data_ok_def Let_def)
  have no_text: "falsy (case candidates response_without_text of None \<Rightarrow> None
                        | Some cs \<Rightarrow> first_text cs)"
    by (simp add: response_without_text_def first_text_def falsy_def)
  note both = response_without_text_handled
         [of env_no_text data_ok context_ok state_ok "fst run_no_text" "snd run_no_text"
             "''gemini-1.5-flash''" systemPrompt "userQuery ''month,revenue''"
             "Some response_without_text" response_without_text post_ok
             "fst (analyze (Inr response_without_text) post_ok)"
             "snd (analyze (Inr response_without_text) post_ok)"]
  from both run called answer empty
  have callable: "fst run_no_text = Inl (HttpsError ''internal''
        ''AI Analysis Failed: AI analysis returned an invalid or empty response structure.'')"
    by blast
  from both post made no_text
  have endpoint: "fst (analyze (Inr response_without_text) post_ok) =
        \<lparr> statusCode = 200,
          payload = JObj [(''report'', JStr ''AI analysis failed to generate a report.'')] \<rparr>"
    by blast
  show ?thesis using called answer empty made no_text callable endpoint by blast
qed

text \<open>
  C6 as stated fails at the HTTP endpoint: the generation service answers the POST
  request with no candidates, and the endpoint answers 200 with a \<open>report\<close> field.
\<close>

theorem endpoint_reports_missing_text_counterexample:
  "(case candidates response_without_text of None \<Rightarrow> None | Some cs \<Rightarrow> first_text cs) = None
   \<and> statusCode (fst (analyze (Inr response_without_text) post_ok)) = 200
   \<and> payload (fst (analyze (Inr response_without_text) post_ok)) =
        JObj [(''report'', JStr ''AI analysis failed to generate a report.'')]"
  by (simp add: analyze_def post_ok_def data_ok_def response_without_text_def first_text_def
        falsy_def)

text \<open>
  C7 (as amended). Every generation call of the callable function uses the model
  \<open>gemini-1.5-flash\<close> with the fixed system instruction \<open>systemPrompt\<close>, which sets the
  analyst persona, asks for Markdown and names five sections: Executive Summary,
  Actionable Insights, Key Performance Indicators (KPIs) and Trends, ROI and Forecast,
  Critical Alerts. Every generation call of the HTTP endpoint carries, as the first
  part of its content, the endpoint's own fixed instruction, which sets the same
  persona and names four sections: the first four, and no alerts.
\<close>

theorem persona_instruction_of_every_call:
  "(analyzeCsvContent e data ctx s = (out, s') \<and> GenerateContent m i q \<in> set (new_calls s s')
      \<longrightarrow> m = ''gemini-1.5-flash'' \<and> i = systemPrompt)
   \<and> sublist ''You are a world-class SME Financial and Business Analyst.'' systemPrompt
   \<and> sublist ''The response must be structured using Markdown.'' systemPrompt
   \<and> sublist ''five sections'' systemPrompt
   \<and> sublist ''1. EXECUTIVE SUMMARY:'' systemPrompt
   \<and> sublist ''2. ACTIONABLE INSIGHTS:'' systemPrompt
   \<and> sublist ''3. KEY PERFORMANCE INDICATORS (KPIs) & TRENDS:'' systemPrompt
   \<and> sublist ''4. ROI & FORECAST:'' systemPrompt
   \<and> sublist ''5. CRITICAL ALERTS:'' systemPrompt
   \<and> (analyze answer req = (resp, cs) \<and> ApiGenerateContent m' ps \<in> set cs
      \<longrightarrow> (\<exists>query. ps = [systemPrompt_api, query]))
   \<and> sublist ''You are a world-class SME Financial and Business Analyst.'' systemPrompt_api
   \<and> sublist ''The response must be structured using Markdown.'' systemPrompt_api
   \<and> sublist ''four sections'' systemPrompt_api
   \<and> sublist ''1. EXECUTIVE SUMMARY:'' systemPrompt_api
   \<and> sublist ''2. ACTIONABLE INSIGHTS:'' systemPrompt_api
   \<and> sublist ''3. KEY PERFORMANCE INDICATORS (KPIs) & TRENDS:'' systemPrompt_api
   \<and> sublist ''4. ROI & FORECAST:'' systemPrompt_api
   \<and> \<not> sublist ''LERT'' systemPrompt_api \<and> \<not> sublist ''lert'' systemPrompt_api"
proof -
  have callable: "m = ''gemini-1.5-flash'' \<and> i = systemPrompt"
    if "analyzeCsvContent e data ctx s = (out, s') \<and> GenerateContent m i q \<in> set (new_calls s s')"
  proof -
    from that have run: "analyzeCsvContent e data ctx s = (out, s')"
      and called: "GenerateContent m i q \<in> set (new_calls s s')" by simp_all
    from run show ?thesis
    proof (cases rule: request_cases)
      case (blocked x cs)
      then show ?thesis using called by (auto simp: new_calls_append)
    next
      case (insert_failed a fc fn x cs)
      then show ?thesis using called by (auto simp: new_calls_append)
    next
      case (failed a fc fn oid err cs mid)
      then show ?thesis using called by (auto simp: new_calls_append)
    next
      case (completed a fc fn oid r t cs)
      then show ?thesis using called by (auto simp: new_calls_append)
    qed
  qed
  have endpoint: "\<exists>query. ps = [systemPrompt_api, query]"
    if "analyze answer req = (resp, cs) \<and> ApiGenerateContent m' ps \<in> set cs"
    using that
    by (auto simp: analyze_def Let_def split: if_splits sum.splits)
  show ?thesis
    using callable endpoint systemPrompt_says systemPrompt_api_says systemPrompt_api_no_alerts
    by blast
qed

text \<open>The same at the valid request in the world where every call succeeds, and at
  the POST request.\<close>

theorem persona_instruction_of_every_call_witness:
  "GenerateContent ''gemini-1.5-flash'' systemPrompt (userQuery ''month,revenue'')
     \<in> set (new_calls state_ok (snd run_ok))
   \<and> sublist ''5. CRITICAL ALERTS:'' systemPrompt
   \<and> ApiGenerateContent ''gemini-2.5-flash-preview-09-2025''
        [systemPrompt_api,
         [CHR 0x0A] @ ''RAW CSV DATA START:'' @ [CHR 0x0A] @ ''month,revenue'' @ [CHR 0x0A]
           @ ''RAW CSV DATA END'']
     \<in> set (snd (analyze (Inr response_with_text) post_ok))
   \<and> sublist ''four sections'' systemPrompt_api"
proof -
  have run: "analyzeCsvContent env_ok data_ok context_ok state_ok = (fst run_ok, snd run_ok)"
    by (simp add: run_ok_def)
  have called: "GenerateContent ''gemini-1.5-flash'' systemPrompt (userQuery ''month,revenue'')
     \<in> set (new_calls state_ok (snd run_ok))"
    by (simp add: run_ok_eq new_calls_def state_ok_def)
  have post: "ApiGenerateContent ''gemini-2.5-flash-preview-09-2025''
        [systemPrompt_api,
         [CHR 0x0A] @ ''RAW CSV DATA START:'' @ [CHR 0x0A] @ ''month,revenue'' @ [CHR 0x0A]
           @ ''RAW CSV DATA END'']
     \<in> set (snd (analyze (Inr response_with_text) post_ok))"
    by (simp add: analyze_def post_ok_def data_ok_def Let_def)
  from persona_instruction_of_every_call
         [of env_ok data_ok context_ok state_ok "fst run_ok" "snd run_ok"]
  show ?thesis using run called post by blast
qed

text \<open>
  C7 as stated fails at the HTTP endpoint: the instruction its call carries asks for
  four sections and says nothing of alerts.
\<close>

theorem endpoint_instruction_counterexample:
  "snd (analyze (Inr response_with_text) post_ok) =
     [ApiGenerateContent ''gemini-2.5-flash-preview-09-2025''
        [systemPrompt_api,
         [CHR 0x0A] @ ''RAW CSV DATA START:'' @ [CHR 0x0A] @ ''month,revenue'' @ [CHR 0x0A]
           @ ''RAW CSV DATA END'']]
   \<and> sublist ''four sections'' systemPrompt_api
   \<and> \<not> sublist ''LERT'' systemPrompt_api \<and> \<not> sublist ''lert'' systemPrompt_api"
  using systemPrompt_api_says(3) systemPrompt_api_no_alerts
  by (simp add: analyze_def post_ok_def data_ok_def Let_def)

text \<open>
  C8 (as amended). Loading the module fails exactly when the whole \<open>mongodb\<close> section
  is missing from the configuration. With the section there the module loads
  whatever values are missing: \<open>mongoUri\<close> is the value read, possibly undefined, and
  \<open>genAI\<close> is undefined when the API key is missing and the client built with the key
  otherwise. When the connection string or the API key is missing, every request to
  the loaded module is blocked: each is answered with an error, none inserts a record
  or makes any call, and the module's state stays as loaded.
\<close>

theorem missing_secret_blocks_every_request:
  assumes "uri_missing cfg \<or> key_missing cfg"
  shows "(isl (module_init cfg db) \<longleftrightarrow> mongodb cfg = None)
         \<and> (\<forall>sect. mongodb cfg = Some sect \<longrightarrow>
               (\<exists>s0. module_init cfg db = Inr s0
                  \<and> mongoUri s0 = uri sect
                  \<and> (key_missing cfg \<longrightarrow> genAI s0 = None)
                  \<and> (\<forall>g. gemini cfg = Some g \<and> \<not> falsy (key g) \<longrightarrow> genAI s0 = key g)
                  \<and> mongoClient s0 = None \<and> store s0 = db \<and> calls s0 = []))
         \<and> (\<forall>s0 reqs outs s'. module_init cfg db = Inr s0 \<and> serve reqs s0 = (outs, s') \<longrightarrow>
               s' = s0 \<and> calls s' = [] \<and> store s' = db
               \<and> list_all isl outs \<and> length outs = length reqs)"
proof (intro conjI)
  show "isl (module_init cfg db) \<longleftrightarrow> mongodb cfg = None"
    by (simp add: module_init_def split: option.splits)
next
  show "\<forall>sect. mongodb cfg = Some sect \<longrightarrow>
               (\<exists>s0. module_init cfg db = Inr s0
                  \<and> mongoUri s0 = uri sect
                  \<and> (key_missing cfg \<longrightarrow> genAI s0 = None)
                  \<and> (\<forall>g. gemini cfg = Some g \<and> \<not> falsy (key g) \<longrightarrow> genAI s0 = key g)
                  \<and> mongoClient s0 = None \<and> store s0 = db \<and> calls s0 = [])"
    by (auto simp: module_init_def key_missing_def split: option.splits)
next
  show "\<forall>s0 reqs outs s'. module_init cfg db = Inr s0 \<and> serve reqs s0 = (outs, s') \<longrightarrow>
               s' = s0 \<and> calls s' = [] \<and> store s' = db
               \<and> list_all isl outs \<and> length outs = length reqs"
  proof (intro allI impI)
    fix s0 reqs outs s'
    assume a: "module_init cfg db = Inr s0 \<and> serve reqs s0 = (outs, s')"
    then have init: "module_init cfg db = Inr s0" and run: "serve reqs s0 = (outs, s')"
      by simp_all
    note loaded = module_init_Inr [OF init]
    have "falsy (mongoUri s0) \<and> mongoClient s0 = None \<or> genAI s0 = None"
      using assms loaded by auto
    from blocked_serve [OF this run]
    have "s' = s0 \<and> list_all isl outs \<and> length outs = length reqs" .
    then show "s' = s0 \<and> calls s' = [] \<and> store s' = db
               \<and> list_all isl outs \<and> length outs = length reqs"
      using loaded by simp
  qed
qed

text \<open>The same for the configuration without the API key and the valid request, which
  is answered with the \<open>internal\<close> error of line 101.\<close>

theorem missing_secret_blocks_every_request_witness:
  "key_missing config_no_key
   \<and> \<not> isl (module_init config_no_key Map.empty)
   \<and> module_init config_no_key Map.empty = Inr state_no_key
   \<and> genAI state_no_key = None
   \<and> serve [\<lparr> req_env = env_ok, req_data = data_ok, req_context = context_ok \<rparr>] state_no_key
        = ([Inl (HttpsError ''internal'' ''AI Service Initialization Failed. Contact support.'')],
           state_no_key)
   \<and> calls state_no_key = [] \<and> store state_no_key = Map.empty"
proof -
  have missing: "uri_missing config_no_key \<or> key_missing config_no_key"
    by (simp add: key_missing_def config_no_key_def falsy_def)
  have key: "key_missing config_no_key"
    by (simp add: key_missing_def config_no_key_def falsy_def)
  have present: "mongodb config_no_key \<noteq> None" by (simp add: config_no_key_def)
  have init: "module_init config_no_key Map.empty = Inr state_no_key"
    by (simp add: module_init_def config_no_key_def state_no_key_def state_ok_def falsy_def)
  have run: "serve [\<lparr> req_env = env_ok, req_data = data_ok, req_context = context_ok \<rparr>] state_no_key
        = ([Inl (HttpsError ''internal'' ''AI Service Initialization Failed. Contact support.'')],
           state_no_key)"
    by (simp add: handler_defs example_defs state_no_key_def)
  note all = missing_secret_blocks_every_request [OF missing, of Map.empty]
  from all present have loads: "\<not> isl (module_init config_no_key Map.empty)" by blast
  from all key init have no_client: "genAI state_no_key = None" by auto
  from all [THEN conjunct2, THEN conjunct2, rule_format, OF conjI [OF init run]]
  have "calls state_no_key = [] \<and> store state_no_key = Map.empty" by simp
  then show ?thesis using key loads init no_client run by simp
qed

text \<open>
  C8 as stated fails: with the connection string missing the module loads, with the
  generation client built and nothing failed; with the API key missing the module
  loads too, the failure caught at line 60. In both cases the handler is there to
  answer requests.
\<close>

theorem module_loads_without_secret_counterexample:
  "uri_missing config_no_uri
   \<and> module_init config_no_uri Map.empty = Inr state_no_uri
   \<and> genAI state_no_uri = Some ''secret''
   \<and> key_missing config_no_key
   \<and> module_init config_no_key Map.empty = Inr state_no_key"
  by (simp add: module_init_def config_no_uri_def config_no_key_def state_no_uri_def
        state_no_key_def state_ok_def falsy_def uri_missing_def key_missing_def)

text \<open>
  C9. A request with no caller identity is rejected with the \<open>unauthenticated\<close> error,
  whatever its payload, and nothing else happens: the module's state, the collection
  and the list of calls are as before.
\<close>

theorem unauthenticated_rejected_first:
  assumes "auth ctx = None"
  shows "analyzeCsvContent e data ctx s =
           (Inl (HttpsError ''unauthenticated'' ''The function must be called while authenticated.''), s)"
  using assms by (simp add: analyzeCsvContent_def)

text \<open>The same for a call with no identity and a null payload, which no validation
  would accept.\<close>

theorem unauthenticated_rejected_first_witness:
  "auth \<lparr> auth = None \<rparr> = None
   \<and> analyzeCsvContent env_ok JNull \<lparr> auth = None \<rparr> state_ok =
        (Inl (HttpsError ''unauthenticated'' ''The function must be called while authenticated.''),
         state_ok)"
proof -
  have anonymous: "auth \<lparr> auth = None \<rparr> = None" by simp
  from unauthenticated_rejected_first [OF anonymous, of env_ok JNull state_ok]
  show ?thesis using anonymous by blast
qed

text \<open>
  C10. The HTTP endpoint answers every request whose method is not POST with status
  405 and the message \<open>Only POST requests allowed.\<close>, and makes no call: the body is not
  read and the generation service is not called.
\<close>

theorem non_POST_answered_405:
  assumes "req_method req \<noteq> ''POST''"
  shows "analyze answer req =
           (\<lparr> statusCode = 405,
              payload = JObj [(''message'', JStr ''Only POST requests allowed.'')] \<rparr>, [])"
  using assms by (simp add: analyze_def)

text \<open>A GET request with a valid body.\<close>

theorem non_POST_answered_405_witness:
  "req_method \<lparr> req_method = ''GET'', req_body = data_ok \<rparr> \<noteq> ''POST''
   \<and> analyze (Inr response_with_text) \<lparr> req_method = ''GET'', req_body = data_ok \<rparr> =
        (\<lparr> statusCode = 405,
           payload = JObj [(''message'', JStr ''Only POST requests allowed.'')] \<rparr>, [])"
proof -
  have get: "req_method \<lparr> req_method = ''GET'', req_body = data_ok \<rparr> \<noteq> ''POST''" by simp
  from non_POST_answered_405 [OF get, of "Inr response_with_text"]
  show ?thesis using get by blast
qed

end
